theory Spec2Isabelle
  imports Main
begin

section \<open>Data model of the replication inspector\<close>

text \<open>
  The development embeds \<^verbatim>\<open>inspectDeploymentReplication\<close>, \<^verbatim>\<open>isIncomingEndpoint\<close> and
  \<^verbatim>\<open>hasOutgoingEndpoint\<close> of package \<^verbatim>\<open>replication\<close>. The method mutates the receiver
  \<^verbatim>\<open>dr\<close> and talks to collaborators (the object store, two syncmaster clients); the
  model passes the receiver explicitly, takes the outcome of every collaborator call of one
  inspection as an input, and records every call and every log line in the order the code
  makes them.
\<close>

text \<open>\<^verbatim>\<open>time.Duration\<close> counts nanoseconds in an \<^verbatim>\<open>int64\<close>. The inspector only copies,
  compares and assigns durations (the one product, \<^verbatim>\<open>time.Second * 10\<close>, is a constant far
  below the wrap-around), so an integer models it exactly.\<close>

type_synonym Duration = int

definition Second :: Duration where
  "Second = 1000000000"

text \<open>A Go \<^verbatim>\<open>error\<close> value that is not \<^verbatim>\<open>nil\<close>; \<^verbatim>\<open>error option\<close> is the Go \<^verbatim>\<open>error\<close>
  with \<^verbatim>\<open>None\<close> for \<^verbatim>\<open>nil\<close>.\<close>

datatype error = Error string

text \<open>\<^verbatim>\<open>maskAny\<close> is declared outside the sources at hand; it wraps an error for
  reporting, and what it returns is again an error. The inspector only tests the result
  against \<^verbatim>\<open>nil\<close>.\<close>

definition maskAny :: "error \<Rightarrow> error" where
  "maskAny err = err"

text \<open>Modelled from the spec: the type \<^verbatim>\<open>api.EndpointSpec\<close> is declared outside the
  sources at hand. It identifies a remote synchronization master by an address and a
  reference to trust material. The inspector only hands it on to collaborators.\<close>

record EndpointSpec =
  Address :: string
  TrustRef :: string

record DeploymentReplicationSpec =
  Spec_Source :: EndpointSpec
  Spec_Destination :: EndpointSpec

datatype DeploymentReplicationPhase =
  DeploymentReplicationPhaseNone | DeploymentReplicationPhaseFailed

subsection \<open>The syncmaster client library\<close>

text \<open>Modelled from the spec: \<^verbatim>\<open>client.Endpoint\<close> with \<^verbatim>\<open>Intersection\<close> and
  \<^verbatim>\<open>IsEmpty\<close> belongs to the syncmaster client library, outside the sources at hand. An
  endpoint descriptor lists the addressable forms of one logical endpoint; two descriptors
  intersect when they denote overlapping addressable targets. Here \<^verbatim>\<open>Intersection\<close>
  keeps the members of the first that occur in the second and \<^verbatim>\<open>IsEmpty\<close> tests for no
  member.\<close>

type_synonym Endpoint = "string list"

definition Intersection :: "Endpoint \<Rightarrow> Endpoint \<Rightarrow> Endpoint" where
  "Intersection a b = filter (\<lambda>x. x \<in> set b) a"

definition IsEmpty :: "Endpoint \<Rightarrow> bool" where
  "IsEmpty ep = (ep = [])"

record OutgoingSyncInfo =
  Outgoing_Endpoint :: Endpoint

text \<open>Modelled from the spec: \<^verbatim>\<open>client.SyncInfo\<close> is a type of the client library. The
  status a synchronization master reports contains an activity flag (read by
  \<^verbatim>\<open>Status.IsActive()\<close>), the endpoints it treats as its source, and the outgoing targets
  it replicates to.\<close>

record SyncInfo =
  Status_IsActive :: bool
  SyncInfo_Source :: Endpoint
  SyncInfo_Outgoing :: "OutgoingSyncInfo list"

text \<open>The value a failed \<^verbatim>\<open>Status\<close> call leaves in its first result.\<close>

definition zeroSyncInfo :: SyncInfo where
  "zeroSyncInfo = \<lparr>Status_IsActive = False, SyncInfo_Source = [], SyncInfo_Outgoing = []\<rparr>"

text \<open>\<^verbatim>\<open>client.TLSAuthentication\<close> is opaque to the inspector, which passes it from
  \<^verbatim>\<open>createArangoSyncTLSAuthentication\<close> to the request.\<close>

type_synonym TLSAuthentication = string

record SynchronizationRequest =
  Req_Source :: Endpoint
  Req_Authentication :: TLSAuthentication

subsection \<open>Conditions\<close>

type_synonym ConditionType = string

definition ConditionTypeConfigured :: ConditionType where
  "ConditionTypeConfigured = ''Configured''"

record Condition =
  cType :: ConditionType
  cStatus :: bool
  cReason :: string
  cMessage :: string

text \<open>Modelled from the spec: \<^verbatim>\<open>ConditionList.Update\<close> of the api package is not part of the
  sources at hand. The spec's condition tracker: \<^verbatim>\<open>Update(type, isTrue, reason, message)\<close>
  reports whether a change occurred; the comparison is by full tuple equality against the
  stored condition of that type (a linear scan of the list), and an unseen type is inserted
  as changed.\<close>

fun Conditions_Update ::
  "Condition list \<Rightarrow> ConditionType \<Rightarrow> bool \<Rightarrow> string \<Rightarrow> string \<Rightarrow> Condition list \<times> bool" where
  "Conditions_Update [] t s r m =
     ([\<lparr>cType = t, cStatus = s, cReason = r, cMessage = m\<rparr>], True)"
| "Conditions_Update (x # xs) t s r m =
     (if cType x = t then
        (if cStatus x = s \<and> cReason x = r \<and> cMessage x = m then (x # xs, False)
         else (x\<lparr>cStatus := s, cReason := r, cMessage := m\<rparr> # xs, True))
      else (case Conditions_Update xs t s r m of (ys, changed) \<Rightarrow> (x # ys, changed)))"


subsection \<open>The inspected object\<close>

text \<open>The receiver \<^verbatim>\<open>dr\<close>: the spec and deletion timestamp of \<^verbatim>\<open>dr.apiObject\<close>, the phase
  and conditions of \<^verbatim>\<open>dr.status\<close>, and the error streak \<^verbatim>\<open>dr.recentInspectionErrors\<close>.
  These are the fields the inspector reads or writes itself. The finalizer list of the
  object is read and written only inside \<^verbatim>\<open>addFinalizers\<close> and \<^verbatim>\<open>runFinalizers\<close>, and
  the stored copy of the status only inside \<^verbatim>\<open>updateCRStatus\<close>; these are declared
  outside the sources at hand, and the model records that they are called and what error
  they return.\<close>

record DeploymentReplication =
  Spec :: DeploymentReplicationSpec
  DeletionTimestamp :: "nat option"
  Phase :: DeploymentReplicationPhase
  Conditions :: "Condition list"
  recentInspectionErrors :: int

text \<open>The package constants \<^verbatim>\<open>minInspectionInterval\<close> and \<^verbatim>\<open>maxInspectionInterval\<close> are
  declared outside the sources at hand and the spec gives them no value; they are
  parameters of the model.\<close>

record Config =
  minInspectionInterval :: Duration
  maxInspectionInterval :: Duration

subsection \<open>Collaborator calls\<close>

datatype Role = DestinationMaster | SourceMaster

text \<open>One constructor for each call the inspector makes on a collaborator.\<close>

datatype Call =
    CallAddFinalizers
  | CallRunFinalizers
  | CallCreateSyncMasterClient EndpointSpec
  | CallMasterStatus Role
  | CallCreateArangoSyncEndpoint EndpointSpec
  | CallUpdateCRStatus
  | CallCancelSynchronization
  | CallCreateArangoSyncTLSAuthentication DeploymentReplicationSpec
  | CallSynchronize SynchronizationRequest

text \<open>The two calls that change what a syncmaster does.\<close>

fun isSyncMutation :: "Call \<Rightarrow> bool" where
  "isSyncMutation CallCancelSynchronization = True"
| "isSyncMutation (CallSynchronize req) = True"
| "isSyncMutation c = False"

text \<open>What each collaborator call of one inspection returns, one field per call site, in
  the order of the source. A Go call returning \<^verbatim>\<open>(value, error)\<close> is a sum, except the two
  \<^verbatim>\<open>Status\<close> calls, which keep both results since the source-side code reads the value
  whatever the error. \<^verbatim>\<open>createArangoSyncEndpoint\<close> is called at three places:
  \<^verbatim>\<open>incomingEndpoint\<close> is its result inside \<^verbatim>\<open>isIncomingEndpoint\<close>, \<^verbatim>\<open>outgoingEndpoint\<close>
  inside \<^verbatim>\<open>hasOutgoingEndpoint\<close> and \<^verbatim>\<open>configureEndpoint\<close> in the configure step. A field
  is read only if the inspection reaches its call.\<close>

record Env =
  addFinalizers_err :: "error option"
  runFinalizers_err :: "error option"
  destClient_err :: "error option"
  destStatus :: SyncInfo
  destStatus_err :: "error option"
  incomingEndpoint :: "error + Endpoint"
  sourceClient_err :: "error option"
  sourceStatus :: SyncInfo
  sourceStatus_err :: "error option"
  outgoingEndpoint :: "error + Endpoint"
  updateCRStatus_err :: "error option"
  cancelSynchronization_err :: "error option"
  configureEndpoint :: "error + Endpoint"
  tlsAuthentication :: "error + TLSAuthentication"
  synchronize_err :: "error option"

datatype LogLevel = Debug | Info | Warn

text \<open>The receiver together with the local variables of the function body, and the calls
  and log lines so far.\<close>

record Ctx =
  ctx_dr :: DeploymentReplication
  calls :: "Call list"
  logs :: "(LogLevel \<times> string) list"
  hasError :: bool
  nextInterval :: Duration
  updateStatusNeeded :: bool
  configureSyncNeeded :: bool
  cancelSyncNeeded :: bool

definition call :: "Call \<Rightarrow> Ctx \<Rightarrow> Ctx" where
  "call x c = c\<lparr>calls := calls c @ [x]\<rparr>"

definition logMsg :: "LogLevel \<Rightarrow> string \<Rightarrow> Ctx \<Rightarrow> Ctx" where
  "logMsg lvl msg c = c\<lparr>logs := logs c @ [(lvl, msg)]\<rparr>"

section \<open>The endpoint checks\<close>

text \<open>\<^verbatim>\<open>isIncomingEndpoint\<close>; the first argument is what
  \<^verbatim>\<open>createArangoSyncEndpoint(epSpec)\<close> returned.\<close>

definition isIncomingEndpoint :: "error + Endpoint \<Rightarrow> SyncInfo \<Rightarrow> bool \<times> error option" where
  "isIncomingEndpoint created status =
     (case created of
        Inl err \<Rightarrow> (False, Some (maskAny err))
      | Inr ep \<Rightarrow> (\<not> IsEmpty (Intersection (SyncInfo_Source status) ep), None))"

text \<open>The loop of \<^verbatim>\<open>hasOutgoingEndpoint\<close> over \<^verbatim>\<open>status.Outgoing\<close>.\<close>

fun anyOutgoingIntersects :: "OutgoingSyncInfo list \<Rightarrow> Endpoint \<Rightarrow> bool" where
  "anyOutgoingIntersects [] ep = False"
| "anyOutgoingIntersects (o1 # os) ep =
     (if \<not> IsEmpty (Intersection (Outgoing_Endpoint o1) ep) then True
      else anyOutgoingIntersects os ep)"

definition hasOutgoingEndpoint :: "error + Endpoint \<Rightarrow> SyncInfo \<Rightarrow> bool \<times> error option" where
  "hasOutgoingEndpoint created status =
     (case created of
        Inl err \<Rightarrow> (False, Some (maskAny err))
      | Inr ep \<Rightarrow> (anyOutgoingIntersects (SyncInfo_Outgoing status) ep, None))"

section \<open>The inspection\<close>

definition initCtx :: "DeploymentReplication \<Rightarrow> Duration \<Rightarrow> Ctx" where
  "initCtx dr lastInterval =
     \<lparr>ctx_dr = dr, calls = [], logs = [], hasError = False, nextInterval = lastInterval,
      updateStatusNeeded = False, configureSyncNeeded = False, cancelSyncNeeded = False\<rparr>"

text \<open>Add finalizers: a failure is logged.\<close>

definition addFinalizersStep :: "Env \<Rightarrow> Ctx \<Rightarrow> Ctx" where
  "addFinalizersStep env c =
     (let c1 = call CallAddFinalizers c in
      case addFinalizers_err env of
        Some err \<Rightarrow> logMsg Warn ''Failed to add finalizers'' c1
      | None \<Rightarrow> c1)"

text \<open>Deletion is triggered: run the finalizers.\<close>

definition runFinalizersStep :: "Env \<Rightarrow> Ctx \<Rightarrow> Ctx" where
  "runFinalizersStep env c =
     (let c1 = call CallRunFinalizers c in
      case runFinalizers_err env of
        Some err \<Rightarrow> (logMsg Warn ''Failed to run finalizers'' c1)\<lparr>hasError := True\<rparr>
      | None \<Rightarrow> c1)"

text \<open>\<^verbatim>\<open>if dr.status.Conditions.Update(...) { updateStatusNeeded = true }\<close>\<close>

definition updateConfigured :: "bool \<Rightarrow> string \<Rightarrow> string \<Rightarrow> Ctx \<Rightarrow> Ctx" where
  "updateConfigured s r m c =
     (case Conditions_Update (Conditions (ctx_dr c)) ConditionTypeConfigured s r m of
        (cs, changed) \<Rightarrow>
          (let c1 = c\<lparr>ctx_dr := (ctx_dr c)\<lparr>Conditions := cs\<rparr>\<rparr> in
           if changed then c1\<lparr>updateStatusNeeded := True\<rparr> else c1))"

text \<open>Fetch and inspect the status of the destination.\<close>

definition inspectDestination :: "Env \<Rightarrow> Ctx \<Rightarrow> Ctx" where
  "inspectDestination env c =
     (let c1 = call (CallMasterStatus DestinationMaster) c in
      case destStatus_err env of
        Some err \<Rightarrow> logMsg Warn ''Failed to fetch status from destination syncmaster'' c1
      | None \<Rightarrow>
          if Status_IsActive (destStatus env) then
            (let c2 = call (CallCreateArangoSyncEndpoint (Spec_Source (Spec (ctx_dr c1)))) c1 in
             case isIncomingEndpoint (incomingEndpoint env) (destStatus env) of
               (isIncoming, Some err) \<Rightarrow> logMsg Warn ''Failed to check is-incoming-endpoint'' c2
             | (isIncoming, None) \<Rightarrow>
                 if isIncoming then
                   updateConfigured True ''Active''
                     ''Destination syncmaster is configured correctly and active'' c2
                 else
                   updateConfigured False ''Invalid''
                     ''Destination syncmaster is configured for different source''
                     ((logMsg Warn ''Destination syncmaster is configured for different source'' c2)
                        \<lparr>cancelSyncNeeded := True\<rparr>))
          else
            updateConfigured False ''Inactive''
              ''Destination syncmaster is configured correctly but in-active''
              (c1\<lparr>configureSyncNeeded := True\<rparr>))"

text \<open>Inspect the source. A failed status fetch is logged and the returned value is
  inspected all the same.\<close>

definition inspectSource :: "Env \<Rightarrow> Ctx \<Rightarrow> Ctx" where
  "inspectSource env c =
     (let c1 = call (CallCreateSyncMasterClient (Spec_Source (Spec (ctx_dr c)))) c in
      case sourceClient_err env of
        Some err \<Rightarrow> logMsg Warn ''Failed to create source syncmaster client'' c1
      | None \<Rightarrow>
          (let c2 = call (CallMasterStatus SourceMaster) c1;
               c3 = (case sourceStatus_err env of
                       Some err \<Rightarrow> logMsg Warn ''Failed to fetch status from source syncmaster'' c2
                     | None \<Rightarrow> c2) in
           if Status_IsActive (sourceStatus env) then
             (let c4 = call (CallCreateArangoSyncEndpoint (Spec_Destination (Spec (ctx_dr c3)))) c3 in
              case hasOutgoingEndpoint (outgoingEndpoint env) (sourceStatus env) of
                (hasOutgoing, Some err) \<Rightarrow> logMsg Warn ''Failed to check has-outgoing-endpoint'' c4
              | (hasOutgoing, None) \<Rightarrow> c4)
           else c3))"

text \<open>Update status if needed.\<close>

definition updateStatusStep :: "Env \<Rightarrow> Ctx \<Rightarrow> Ctx" where
  "updateStatusStep env c =
     (if updateStatusNeeded c then
        (let c1 = call CallUpdateCRStatus c in
         case updateCRStatus_err env of
           Some err \<Rightarrow> (logMsg Warn ''Failed to update status'' c1)\<lparr>hasError := True\<rparr>
         | None \<Rightarrow> c1)
      else c)"

text \<open>Cancel sync if needed.\<close>

definition cancelSyncStep :: "Env \<Rightarrow> Ctx \<Rightarrow> Ctx" where
  "cancelSyncStep env c =
     (if cancelSyncNeeded c then
        (let c1 = call CallCancelSynchronization (logMsg Info ''Canceling synchronization'' c) in
         case cancelSynchronization_err env of
           Some err \<Rightarrow> (logMsg Warn ''Failed to cancel synchronization'' c1)\<lparr>hasError := True\<rparr>
         | None \<Rightarrow> (logMsg Info ''Canceled synchronization'' c1)\<lparr>nextInterval := Second * 10\<rparr>)
      else c)"

text \<open>Configure sync if needed.\<close>

definition configureSyncStep :: "Env \<Rightarrow> Ctx \<Rightarrow> Ctx" where
  "configureSyncStep env c =
     (if configureSyncNeeded c then
        (let c1 = call (CallCreateArangoSyncEndpoint (Spec_Source (Spec (ctx_dr c)))) c in
         case configureEndpoint env of
           Inl err \<Rightarrow> (logMsg Warn ''Failed to create syncmaster endpoint'' c1)\<lparr>hasError := True\<rparr>
         | Inr source \<Rightarrow>
             (let c2 = call (CallCreateArangoSyncTLSAuthentication (Spec (ctx_dr c1))) c1 in
              case tlsAuthentication env of
                Inl err \<Rightarrow>
                  (logMsg Warn ''Failed to configure synchronization authentication'' c2)
                    \<lparr>hasError := True\<rparr>
              | Inr auth \<Rightarrow>
                  (let req = \<lparr>Req_Source = source, Req_Authentication = auth\<rparr>;
                       c3 = call (CallSynchronize req)
                              (logMsg Info ''Configuring synchronization'' c2) in
                   case synchronize_err env of
                     Some err \<Rightarrow>
                       (logMsg Warn ''Failed to configure synchronization'' c3)\<lparr>hasError := True\<rparr>
                   | None \<Rightarrow>
                       (logMsg Info ''Configured synchronization'' c3)
                         \<lparr>nextInterval := Second * 10\<rparr>)))
      else c)"

text \<open>Inspect configuration status: the branch taken when no deletion is triggered.\<close>

definition inspectConfiguration :: "Env \<Rightarrow> Ctx \<Rightarrow> Ctx" where
  "inspectConfiguration env c =
     (let c1 = call (CallCreateSyncMasterClient (Spec_Destination (Spec (ctx_dr c)))) c in
      case destClient_err env of
        Some err \<Rightarrow> logMsg Warn ''Failed to create destination syncmaster client'' c1
      | None \<Rightarrow>
          configureSyncStep env
            (cancelSyncStep env
              (updateStatusStep env
                (inspectSource env
                  (inspectDestination env c1)))))"

text \<open>Everything between the check of the phase and the update of the interval.\<close>

definition inspectActions :: "Env \<Rightarrow> Ctx \<Rightarrow> Ctx" where
  "inspectActions env c =
     (if DeletionTimestamp (ctx_dr c) \<noteq> None then runFinalizersStep env c
      else inspectConfiguration env c)"

text \<open>Update next interval (on errors), then bound it from above.\<close>

definition updateNextInterval :: "Config \<Rightarrow> Ctx \<Rightarrow> Ctx" where
  "updateNextInterval cfg c =
     (let c1 =
        (if hasError c then
           (if recentInspectionErrors (ctx_dr c) = 0 then
              c\<lparr>nextInterval := minInspectionInterval cfg,
                ctx_dr := (ctx_dr c)\<lparr>recentInspectionErrors := recentInspectionErrors (ctx_dr c) + 1\<rparr>\<rparr>
            else c)
         else c\<lparr>ctx_dr := (ctx_dr c)\<lparr>recentInspectionErrors := 0\<rparr>\<rparr>) in
      if nextInterval c1 > maxInspectionInterval cfg
      then c1\<lparr>nextInterval := maxInspectionInterval cfg\<rparr> else c1)"

text \<open>The state in which the inspection reaches the update of the interval, for an object
  that is not in phase Failed.\<close>

definition beforeIntervalUpdate :: "Env \<Rightarrow> DeploymentReplication \<Rightarrow> Duration \<Rightarrow> Ctx" where
  "beforeIntervalUpdate env dr lastInterval =
     inspectActions env (addFinalizersStep env (initCtx dr lastInterval))"

text \<open>\<^verbatim>\<open>inspectDeploymentReplication\<close>: the returned delay, and the final state of the
  receiver and of the local variables.\<close>

record Result =
  ret :: Duration
  final :: Ctx

definition inspectDeploymentReplication ::
  "Config \<Rightarrow> Env \<Rightarrow> DeploymentReplication \<Rightarrow> Duration \<Rightarrow> Result" where
  "inspectDeploymentReplication cfg env dr lastInterval =
     (if Phase dr = DeploymentReplicationPhaseFailed then
        (let c = logMsg Debug ''Deployment replication is in Failed state.''
                   (addFinalizersStep env (initCtx dr lastInterval)) in
         \<lparr>ret = nextInterval c, final = c\<rparr>)
      else
        (let c = updateNextInterval cfg (beforeIntervalUpdate env dr lastInterval) in
         \<lparr>ret = nextInterval c, final = c\<rparr>))"

text \<open>Two states of the function body agree on everything but the log lines and the
  calls that are not syncmaster mutations: the receiver, the local variables and the
  sequence of cancel and configure calls are the same.\<close>

definition sameOutcome :: "Ctx \<Rightarrow> Ctx \<Rightarrow> bool" where
  "sameOutcome c c' =
     (ctx_dr c = ctx_dr c' \<and> hasError c = hasError c' \<and> nextInterval c = nextInterval c'
      \<and> updateStatusNeeded c = updateStatusNeeded c'
      \<and> configureSyncNeeded c = configureSyncNeeded c'
      \<and> cancelSyncNeeded c = cancelSyncNeeded c'
      \<and> filter isSyncMutation (calls c) = filter isSyncMutation (calls c'))"

section \<open>Concrete inputs\<close>

text \<open>A configuration with an interval of one second at least and one minute at most, a
  replication object that is neither failed nor being deleted, and an environment in which
  every collaborator call succeeds, the destination is inactive and the source replicates to
  the destination.\<close>

definition exCfg :: Config where
  "exCfg = \<lparr>minInspectionInterval = Second, maxInspectionInterval = 60 * Second\<rparr>"

definition exSpec :: DeploymentReplicationSpec where
  "exSpec = \<lparr>Spec_Source = \<lparr>Address = ''https://src:8629'', TrustRef = ''src-ca''\<rparr>,
             Spec_Destination = \<lparr>Address = ''https://dst:8629'', TrustRef = ''dst-ca''\<rparr>\<rparr>"

definition exDr :: DeploymentReplication where
  "exDr = \<lparr>Spec = exSpec, DeletionTimestamp = None, Phase = DeploymentReplicationPhaseNone,
           Conditions = [], recentInspectionErrors = 0\<rparr>"

definition exEnv :: Env where
  "exEnv = \<lparr>addFinalizers_err = None, runFinalizers_err = None, destClient_err = None,
            destStatus = zeroSyncInfo, destStatus_err = None,
            incomingEndpoint = Inr [''https://src:8629''],
            sourceClient_err = None,
            sourceStatus = \<lparr>Status_IsActive = True, SyncInfo_Source = [],
                            SyncInfo_Outgoing = [\<lparr>Outgoing_Endpoint = [''https://dst:8629'']\<rparr>]\<rparr>,
            sourceStatus_err = None,
            outgoingEndpoint = Inr [''https://dst:8629''],
            updateCRStatus_err = None, cancelSynchronization_err = None,
            configureEndpoint = Inr [''https://src:8629''],
            tlsAuthentication = Inr ''client-auth'',
            synchronize_err = None\<rparr>"

text \<open>A destination that is active and replicates from another source.\<close>

definition exMisdirected :: SyncInfo where
  "exMisdirected = \<lparr>Status_IsActive = True, SyncInfo_Source = [''https://other:8629''],
                     SyncInfo_Outgoing = []\<rparr>"

text \<open>A destination that is active and replicates from the source of the spec.\<close>

definition exActive :: SyncInfo where
  "exActive = \<lparr>Status_IsActive = True, SyncInfo_Source = [''https://src:8629''],
                SyncInfo_Outgoing = []\<rparr>"

section \<open>What each step leaves unchanged\<close>


lemma addFinalizersStep_frame:
  "ctx_dr (addFinalizersStep env c) = ctx_dr c"
  "hasError (addFinalizersStep env c) = hasError c"
  "nextInterval (addFinalizersStep env c) = nextInterval c"
  "updateStatusNeeded (addFinalizersStep env c) = updateStatusNeeded c"
  "configureSyncNeeded (addFinalizersStep env c) = configureSyncNeeded c"
  "cancelSyncNeeded (addFinalizersStep env c) = cancelSyncNeeded c"
  "calls (addFinalizersStep env c) = calls c @ [CallAddFinalizers]"
  by (simp_all add: addFinalizersStep_def call_def logMsg_def Let_def split: option.split)

lemma runFinalizersStep_frame:
  "ctx_dr (runFinalizersStep env c) = ctx_dr c"
  "hasError (runFinalizersStep env c) = (hasError c \<or> runFinalizers_err env \<noteq> None)"
  "nextInterval (runFinalizersStep env c) = nextInterval c"
  "updateStatusNeeded (runFinalizersStep env c) = updateStatusNeeded c"
  "configureSyncNeeded (runFinalizersStep env c) = configureSyncNeeded c"
  "cancelSyncNeeded (runFinalizersStep env c) = cancelSyncNeeded c"
  "calls (runFinalizersStep env c) = calls c @ [CallRunFinalizers]"
  by (simp_all add: runFinalizersStep_def call_def logMsg_def Let_def split: option.split)

lemma updateConfigured_frame:
  "Spec (ctx_dr (updateConfigured s r m c)) = Spec (ctx_dr c)"
  "Phase (ctx_dr (updateConfigured s r m c)) = Phase (ctx_dr c)"
  "DeletionTimestamp (ctx_dr (updateConfigured s r m c)) = DeletionTimestamp (ctx_dr c)"
  "recentInspectionErrors (ctx_dr (updateConfigured s r m c)) = recentInspectionErrors (ctx_dr c)"
  "hasError (updateConfigured s r m c) = hasError c"
  "nextInterval (updateConfigured s r m c) = nextInterval c"
  "configureSyncNeeded (updateConfigured s r m c) = configureSyncNeeded c"
  "cancelSyncNeeded (updateConfigured s r m c) = cancelSyncNeeded c"
  "calls (updateConfigured s r m c) = calls c"
  "logs (updateConfigured s r m c) = logs c"
  by (simp_all add: updateConfigured_def Let_def split: prod.split)


lemma inspectDestination_frame:
  "Spec (ctx_dr (inspectDestination env c)) = Spec (ctx_dr c)"
  "Phase (ctx_dr (inspectDestination env c)) = Phase (ctx_dr c)"
  "DeletionTimestamp (ctx_dr (inspectDestination env c)) = DeletionTimestamp (ctx_dr c)"
  "recentInspectionErrors (ctx_dr (inspectDestination env c)) = recentInspectionErrors (ctx_dr c)"
  "hasError (inspectDestination env c) = hasError c"
  "nextInterval (inspectDestination env c) = nextInterval c"
  "filter isSyncMutation (calls (inspectDestination env c)) = filter isSyncMutation (calls c)"
  by (simp_all add: inspectDestination_def updateConfigured_frame call_def logMsg_def Let_def
        split: option.split prod.split)

lemma inspectDestination_exclusive:
  "\<not> configureSyncNeeded c \<Longrightarrow> \<not> cancelSyncNeeded c \<Longrightarrow>
   \<not> (configureSyncNeeded (inspectDestination env c) \<and> cancelSyncNeeded (inspectDestination env c))"
  by (simp add: inspectDestination_def updateConfigured_frame call_def logMsg_def Let_def
        split: option.split prod.split)

lemma inspectSource_frame:
  "ctx_dr (inspectSource env c) = ctx_dr c"
  "hasError (inspectSource env c) = hasError c"
  "nextInterval (inspectSource env c) = nextInterval c"
  "updateStatusNeeded (inspectSource env c) = updateStatusNeeded c"
  "configureSyncNeeded (inspectSource env c) = configureSyncNeeded c"
  "cancelSyncNeeded (inspectSource env c) = cancelSyncNeeded c"
  "filter isSyncMutation (calls (inspectSource env c)) = filter isSyncMutation (calls c)"
  by (simp_all add: inspectSource_def call_def logMsg_def Let_def
        split: option.split prod.split)

lemma updateStatusStep_frame:
  "ctx_dr (updateStatusStep env c) = ctx_dr c"
  "hasError (updateStatusStep env c) =
     (hasError c \<or> (updateStatusNeeded c \<and> updateCRStatus_err env \<noteq> None))"
  "nextInterval (updateStatusStep env c) = nextInterval c"
  "updateStatusNeeded (updateStatusStep env c) = updateStatusNeeded c"
  "configureSyncNeeded (updateStatusStep env c) = configureSyncNeeded c"
  "cancelSyncNeeded (updateStatusStep env c) = cancelSyncNeeded c"
  "filter isSyncMutation (calls (updateStatusStep env c)) = filter isSyncMutation (calls c)"
  by (simp_all add: updateStatusStep_def call_def logMsg_def Let_def split: option.split)

lemma cancelSyncStep_frame:
  "ctx_dr (cancelSyncStep env c) = ctx_dr c"
  "hasError (cancelSyncStep env c) =
     (hasError c \<or> (cancelSyncNeeded c \<and> cancelSynchronization_err env \<noteq> None))"
  "nextInterval (cancelSyncStep env c) =
     (if cancelSyncNeeded c \<and> cancelSynchronization_err env = None then Second * 10
      else nextInterval c)"
  "updateStatusNeeded (cancelSyncStep env c) = updateStatusNeeded c"
  "configureSyncNeeded (cancelSyncStep env c) = configureSyncNeeded c"
  "cancelSyncNeeded (cancelSyncStep env c) = cancelSyncNeeded c"
  "filter isSyncMutation (calls (cancelSyncStep env c)) =
     filter isSyncMutation (calls c) @ (if cancelSyncNeeded c then [CallCancelSynchronization] else [])"
  by (simp_all add: cancelSyncStep_def call_def logMsg_def Let_def split: option.split)

lemma configureSyncStep_frame:
  "ctx_dr (configureSyncStep env c) = ctx_dr c"
  "updateStatusNeeded (configureSyncStep env c) = updateStatusNeeded c"
  "configureSyncNeeded (configureSyncStep env c) = configureSyncNeeded c"
  "cancelSyncNeeded (configureSyncStep env c) = cancelSyncNeeded c"
  by (simp_all add: configureSyncStep_def call_def logMsg_def Let_def
        split: option.split sum.split)

lemma configureSyncStep_hasError:
  "hasError (configureSyncStep env c) =
     (hasError c \<or> (configureSyncNeeded c \<and>
        (isl (configureEndpoint env) \<or> isl (tlsAuthentication env) \<or> synchronize_err env \<noteq> None)))"
  by (simp add: configureSyncStep_def call_def logMsg_def Let_def
        split: option.split sum.split)

lemma configureSyncStep_nextInterval:
  "nextInterval (configureSyncStep env c) =
     (if configureSyncNeeded c \<and> \<not> isl (configureEndpoint env) \<and> \<not> isl (tlsAuthentication env)
          \<and> synchronize_err env = None
      then Second * 10 else nextInterval c)"
  by (simp add: configureSyncStep_def call_def logMsg_def Let_def
        split: option.split sum.split)

lemma configureSyncStep_mutations:
  "filter isSyncMutation (calls (configureSyncStep env c)) =
     filter isSyncMutation (calls c) @
       (if configureSyncNeeded c then
          (case configureEndpoint env of
             Inl err \<Rightarrow> []
           | Inr source \<Rightarrow>
               (case tlsAuthentication env of
                  Inl err \<Rightarrow> []
                | Inr auth \<Rightarrow> [CallSynchronize \<lparr>Req_Source = source, Req_Authentication = auth\<rparr>]))
        else [])"
  by (simp add: configureSyncStep_def call_def logMsg_def Let_def
        split: option.split sum.split)

lemma updateNextInterval_frame:
  "Spec (ctx_dr (updateNextInterval cfg c)) = Spec (ctx_dr c)"
  "Phase (ctx_dr (updateNextInterval cfg c)) = Phase (ctx_dr c)"
  "DeletionTimestamp (ctx_dr (updateNextInterval cfg c)) = DeletionTimestamp (ctx_dr c)"
  "Conditions (ctx_dr (updateNextInterval cfg c)) = Conditions (ctx_dr c)"
  "hasError (updateNextInterval cfg c) = hasError c"
  "updateStatusNeeded (updateNextInterval cfg c) = updateStatusNeeded c"
  "configureSyncNeeded (updateNextInterval cfg c) = configureSyncNeeded c"
  "cancelSyncNeeded (updateNextInterval cfg c) = cancelSyncNeeded c"
  "calls (updateNextInterval cfg c) = calls c"
  "logs (updateNextInterval cfg c) = logs c"
  by (simp_all add: updateNextInterval_def Let_def)

lemma updateNextInterval_streak:
  "recentInspectionErrors (ctx_dr (updateNextInterval cfg c)) =
     (if hasError c then
        (if recentInspectionErrors (ctx_dr c) = 0 then 1 else recentInspectionErrors (ctx_dr c))
      else 0)"
  by (simp add: updateNextInterval_def Let_def)

lemma updateNextInterval_nextInterval:
  "nextInterval (updateNextInterval cfg c) =
     min (if hasError c \<and> recentInspectionErrors (ctx_dr c) = 0
          then minInspectionInterval cfg else nextInterval c)
         (maxInspectionInterval cfg)"
  by (simp add: updateNextInterval_def Let_def min_def)

section \<open>The inspection as a whole\<close>

lemma inspectConfiguration_mutations:
  assumes "\<not> configureSyncNeeded c" "\<not> cancelSyncNeeded c"
  shows "length (filter isSyncMutation (calls (inspectConfiguration env c)))
           \<le> length (filter isSyncMutation (calls c)) + 1"
proof (cases "destClient_err env")
  case (Some err)
  then show ?thesis
    by (simp add: inspectConfiguration_def call_def logMsg_def)
next
  case None
  let ?d = "inspectDestination env (call (CallCreateSyncMasterClient (Spec_Destination (Spec (ctx_dr c)))) c)"
  have excl: "\<not> (configureSyncNeeded ?d \<and> cancelSyncNeeded ?d)"
    using assms by (intro inspectDestination_exclusive) (simp_all add: call_def)
  have base: "filter isSyncMutation (calls ?d) = filter isSyncMutation (calls c)"
    by (simp add: inspectDestination_frame call_def)
  show ?thesis
    using None excl base
    by (simp add: inspectConfiguration_def configureSyncStep_mutations cancelSyncStep_frame
          updateStatusStep_frame inspectSource_frame split: sum.split)
qed

lemma inspectConfiguration_flags:
  assumes "\<not> configureSyncNeeded c" "\<not> cancelSyncNeeded c"
  shows "\<not> (configureSyncNeeded (inspectConfiguration env c)
            \<and> cancelSyncNeeded (inspectConfiguration env c))"
proof (cases "destClient_err env")
  case (Some err)
  then show ?thesis
    using assms by (simp add: inspectConfiguration_def call_def logMsg_def)
next
  case None
  let ?d = "inspectDestination env (call (CallCreateSyncMasterClient (Spec_Destination (Spec (ctx_dr c)))) c)"
  have "\<not> (configureSyncNeeded ?d \<and> cancelSyncNeeded ?d)"
    using assms by (intro inspectDestination_exclusive) (simp_all add: call_def)
  then show ?thesis
    using None
    by (simp add: inspectConfiguration_def configureSyncStep_frame cancelSyncStep_frame
          updateStatusStep_frame inspectSource_frame)
qed

lemma inspectConfiguration_frame:
  "Spec (ctx_dr (inspectConfiguration env c)) = Spec (ctx_dr c)"
  "Phase (ctx_dr (inspectConfiguration env c)) = Phase (ctx_dr c)"
  "DeletionTimestamp (ctx_dr (inspectConfiguration env c)) = DeletionTimestamp (ctx_dr c)"
  "recentInspectionErrors (ctx_dr (inspectConfiguration env c)) = recentInspectionErrors (ctx_dr c)"
  by (simp_all add: inspectConfiguration_def configureSyncStep_frame cancelSyncStep_frame
        updateStatusStep_frame inspectSource_frame inspectDestination_frame call_def logMsg_def
        Let_def split: option.split)

lemma inspectConfiguration_nextInterval:
  "nextInterval (inspectConfiguration env c) = nextInterval c
   \<or> nextInterval (inspectConfiguration env c) = Second * 10"
  by (simp add: inspectConfiguration_def configureSyncStep_nextInterval cancelSyncStep_frame
        updateStatusStep_frame inspectSource_frame inspectDestination_frame call_def logMsg_def
        Let_def split: option.split)

lemma beforeIntervalUpdate_frame:
  "Spec (ctx_dr (beforeIntervalUpdate env dr lastInterval)) = Spec dr"
  "Phase (ctx_dr (beforeIntervalUpdate env dr lastInterval)) = Phase dr"
  "DeletionTimestamp (ctx_dr (beforeIntervalUpdate env dr lastInterval)) = DeletionTimestamp dr"
  "recentInspectionErrors (ctx_dr (beforeIntervalUpdate env dr lastInterval)) = recentInspectionErrors dr"
  by (simp_all add: beforeIntervalUpdate_def inspectActions_def inspectConfiguration_frame
        runFinalizersStep_frame addFinalizersStep_frame initCtx_def)

lemma beforeIntervalUpdate_nextInterval:
  "nextInterval (beforeIntervalUpdate env dr lastInterval) = lastInterval
   \<or> nextInterval (beforeIntervalUpdate env dr lastInterval) = Second * 10"
  using inspectConfiguration_nextInterval [of env "addFinalizersStep env (initCtx dr lastInterval)"]
  by (simp add: beforeIntervalUpdate_def inspectActions_def
        runFinalizersStep_frame addFinalizersStep_frame initCtx_def)

section \<open>Steps that are skipped, and what is logged\<close>

lemma steps_skipped:
  "\<not> updateStatusNeeded c \<Longrightarrow> updateStatusStep env c = c"
  "\<not> cancelSyncNeeded c \<Longrightarrow> cancelSyncStep env c = c"
  "\<not> configureSyncNeeded c \<Longrightarrow> configureSyncStep env c = c"
  by (simp_all add: updateStatusStep_def cancelSyncStep_def configureSyncStep_def)

lemma logs_mono:
  "set (logs c) \<subseteq> set (logs (inspectSource env c))"
  "set (logs c) \<subseteq> set (logs (updateStatusStep env c))"
  "set (logs c) \<subseteq> set (logs (cancelSyncStep env c))"
  "set (logs c) \<subseteq> set (logs (configureSyncStep env c))"
  by (auto simp: inspectSource_def updateStatusStep_def cancelSyncStep_def configureSyncStep_def
        call_def logMsg_def Let_def split: option.split sum.split prod.split)

lemma logs_kept:
  assumes "x \<in> set (logs c)"
  shows "x \<in> set (logs (configureSyncStep env (cancelSyncStep env (updateStatusStep env c))))"
  using assms logs_mono(2-4) by blast

lemma updateStatus_called:
  "(CallUpdateCRStatus \<in> set (calls (addFinalizersStep env c))) = (CallUpdateCRStatus \<in> set (calls c))"
  "(CallUpdateCRStatus \<in> set (calls (runFinalizersStep env c))) = (CallUpdateCRStatus \<in> set (calls c))"
  "(CallUpdateCRStatus \<in> set (calls (inspectDestination env c))) = (CallUpdateCRStatus \<in> set (calls c))"
  "(CallUpdateCRStatus \<in> set (calls (inspectSource env c))) = (CallUpdateCRStatus \<in> set (calls c))"
  "(CallUpdateCRStatus \<in> set (calls (updateStatusStep env c))) =
     (CallUpdateCRStatus \<in> set (calls c) \<or> updateStatusNeeded c)"
  "(CallUpdateCRStatus \<in> set (calls (cancelSyncStep env c))) = (CallUpdateCRStatus \<in> set (calls c))"
  "(CallUpdateCRStatus \<in> set (calls (configureSyncStep env c))) = (CallUpdateCRStatus \<in> set (calls c))"
  by (simp_all add: addFinalizersStep_frame runFinalizersStep_frame inspectDestination_def
        updateConfigured_frame inspectSource_def updateStatusStep_def cancelSyncStep_def
        configureSyncStep_def call_def logMsg_def Let_def
        split: option.split sum.split prod.split)

lemma updateStatusStep_logged:
  "updateStatusNeeded c \<Longrightarrow> updateCRStatus_err env = Some err \<Longrightarrow>
   (Warn, ''Failed to update status'') \<in> set (logs (updateStatusStep env c))"
  by (simp add: updateStatusStep_def call_def logMsg_def Let_def)

section \<open>Outcomes that do not depend on the log or on diagnostic calls\<close>

lemma sameOutcome_refl: "sameOutcome c c"
  by (simp add: sameOutcome_def)

lemma sameOutcome_addFinalizers:
  "sameOutcome c c' \<Longrightarrow> sameOutcome (addFinalizersStep env c) (addFinalizersStep env' c')"
  by (simp add: sameOutcome_def addFinalizersStep_frame)

lemma sameOutcome_runFinalizers:
  "runFinalizers_err env' = runFinalizers_err env \<Longrightarrow>
   sameOutcome c c' \<Longrightarrow> sameOutcome (runFinalizersStep env c) (runFinalizersStep env' c')"
  by (simp add: sameOutcome_def runFinalizersStep_frame)

lemma sameOutcome_updateConfigured:
  "sameOutcome c c' \<Longrightarrow> sameOutcome (updateConfigured s r m c) (updateConfigured s r m c')"
  by (simp add: sameOutcome_def updateConfigured_def Let_def split: prod.split)

lemma sameOutcome_inspectSource:
  "sameOutcome c c' \<Longrightarrow> sameOutcome (inspectSource env c) (inspectSource env' c')"
  by (simp add: sameOutcome_def inspectSource_frame)

lemma sameOutcome_updateStatusStep:
  "updateCRStatus_err env' = updateCRStatus_err env \<Longrightarrow>
   sameOutcome c c' \<Longrightarrow> sameOutcome (updateStatusStep env c) (updateStatusStep env' c')"
  by (simp add: sameOutcome_def updateStatusStep_frame)

lemma sameOutcome_cancelSyncStep:
  "cancelSynchronization_err env' = cancelSynchronization_err env \<Longrightarrow>
   sameOutcome c c' \<Longrightarrow> sameOutcome (cancelSyncStep env c) (cancelSyncStep env' c')"
  by (simp add: sameOutcome_def cancelSyncStep_frame)

lemma sameOutcome_configureSyncStep:
  "configureEndpoint env' = configureEndpoint env \<Longrightarrow>
   tlsAuthentication env' = tlsAuthentication env \<Longrightarrow>
   synchronize_err env' = synchronize_err env \<Longrightarrow>
   sameOutcome c c' \<Longrightarrow> sameOutcome (configureSyncStep env c) (configureSyncStep env' c')"
  by (simp add: sameOutcome_def configureSyncStep_frame configureSyncStep_hasError
        configureSyncStep_nextInterval configureSyncStep_mutations cong: sum.case_cong)

lemma sameOutcome_inspectDestination:
  assumes env: "destStatus env' = destStatus env" "destStatus_err env' = destStatus_err env"
    "incomingEndpoint env' = incomingEndpoint env"
    and same: "sameOutcome c c'"
  shows "sameOutcome (inspectDestination env c) (inspectDestination env' c')"
proof (cases "destStatus_err env")
  case (Some err)
  then show ?thesis
    using env same by (simp add: inspectDestination_def sameOutcome_def call_def logMsg_def)
next
  case None
  note fetched = this
  show ?thesis
  proof (cases "Status_IsActive (destStatus env)")
    case False
    have "sameOutcome ((call (CallMasterStatus DestinationMaster) c)\<lparr>configureSyncNeeded := True\<rparr>)
            ((call (CallMasterStatus DestinationMaster) c')\<lparr>configureSyncNeeded := True\<rparr>)"
      using same by (simp add: sameOutcome_def call_def)
    from sameOutcome_updateConfigured [OF this] show ?thesis
      using fetched False env by (simp add: inspectDestination_def)
  next
    case True
    note active = this
    obtain isIncoming e where chk:
      "isIncomingEndpoint (incomingEndpoint env) (destStatus env) = (isIncoming, e)"
      by (cases "isIncomingEndpoint (incomingEndpoint env) (destStatus env)")
    have spec: "Spec (ctx_dr c) = Spec (ctx_dr c')"
      using same by (simp add: sameOutcome_def)
    let ?k = "\<lambda>c. call (CallCreateArangoSyncEndpoint (Spec_Source (Spec (ctx_dr c'))))
                    (call (CallMasterStatus DestinationMaster) c)"
    have k: "sameOutcome (?k c) (?k c')"
      using same by (simp add: sameOutcome_def call_def)
    show ?thesis
    proof (cases e)
      case (Some err)
      then show ?thesis
        using fetched active chk env spec k
        by (simp add: inspectDestination_def sameOutcome_def call_def logMsg_def)
    next
      case None
      show ?thesis
      proof (cases isIncoming)
        case True
        from sameOutcome_updateConfigured [OF k] show ?thesis
          using fetched active chk env spec None True
          by (simp add: inspectDestination_def call_def)
      next
        case False
        let ?w = "\<lambda>c. (logMsg Warn ''Destination syncmaster is configured for different source'' (?k c))
                       \<lparr>cancelSyncNeeded := True\<rparr>"
        have "sameOutcome (?w c) (?w c')"
          using k by (simp add: sameOutcome_def logMsg_def)
        from sameOutcome_updateConfigured [OF this] show ?thesis
          using fetched active chk env spec None False
          by (simp add: inspectDestination_def call_def)
      qed
    qed
  qed
qed

lemma sameOutcome_inspectConfiguration:
  assumes "destClient_err env' = destClient_err env"
    "destStatus env' = destStatus env" "destStatus_err env' = destStatus_err env"
    "incomingEndpoint env' = incomingEndpoint env"
    "updateCRStatus_err env' = updateCRStatus_err env"
    "cancelSynchronization_err env' = cancelSynchronization_err env"
    "configureEndpoint env' = configureEndpoint env"
    "tlsAuthentication env' = tlsAuthentication env"
    "synchronize_err env' = synchronize_err env"
    and same: "sameOutcome c c'"
  shows "sameOutcome (inspectConfiguration env c) (inspectConfiguration env' c')"
proof (cases "destClient_err env")
  case (Some err)
  then show ?thesis
    using assms by (simp add: inspectConfiguration_def sameOutcome_def call_def logMsg_def)
next
  case None
  have "sameOutcome (call (CallCreateSyncMasterClient (Spec_Destination (Spec (ctx_dr c)))) c)
          (call (CallCreateSyncMasterClient (Spec_Destination (Spec (ctx_dr c')))) c')"
    using same by (simp add: sameOutcome_def call_def)
  then have "sameOutcome
      (configureSyncStep env (cancelSyncStep env (updateStatusStep env (inspectSource env
        (inspectDestination env
          (call (CallCreateSyncMasterClient (Spec_Destination (Spec (ctx_dr c)))) c))))))
      (configureSyncStep env' (cancelSyncStep env' (updateStatusStep env' (inspectSource env'
        (inspectDestination env'
          (call (CallCreateSyncMasterClient (Spec_Destination (Spec (ctx_dr c')))) c'))))))"
    using assms(2-9)
    by (intro sameOutcome_configureSyncStep sameOutcome_cancelSyncStep
          sameOutcome_updateStatusStep sameOutcome_inspectSource sameOutcome_inspectDestination)
  then show ?thesis
    using None assms(1) by (simp add: inspectConfiguration_def)
qed

lemma sameOutcome_beforeIntervalUpdate:
  assumes "runFinalizers_err env' = runFinalizers_err env"
    "destClient_err env' = destClient_err env"
    "destStatus env' = destStatus env" "destStatus_err env' = destStatus_err env"
    "incomingEndpoint env' = incomingEndpoint env"
    "updateCRStatus_err env' = updateCRStatus_err env"
    "cancelSynchronization_err env' = cancelSynchronization_err env"
    "configureEndpoint env' = configureEndpoint env"
    "tlsAuthentication env' = tlsAuthentication env"
    "synchronize_err env' = synchronize_err env"
  shows "sameOutcome (beforeIntervalUpdate env dr lastInterval)
           (beforeIntervalUpdate env' dr lastInterval)"
proof -
  let ?c = "addFinalizersStep env (initCtx dr lastInterval)"
  let ?c' = "addFinalizersStep env' (initCtx dr lastInterval)"
  have start: "sameOutcome ?c ?c'"
    by (intro sameOutcome_addFinalizers sameOutcome_refl)
  have dr: "ctx_dr ?c = dr" "ctx_dr ?c' = dr"
    by (simp_all add: addFinalizersStep_frame initCtx_def)
  show ?thesis
  proof (cases "DeletionTimestamp dr")
    case None
    then show ?thesis
      using sameOutcome_inspectConfiguration [OF assms(2-10) start] dr
      by (simp add: beforeIntervalUpdate_def inspectActions_def)
  next
    case (Some t)
    then show ?thesis
      using sameOutcome_runFinalizers [OF assms(1) start] dr
      by (simp add: beforeIntervalUpdate_def inspectActions_def)
  qed
qed

lemma sameOutcome_result:
  assumes "sameOutcome (beforeIntervalUpdate env dr lastInterval)
             (beforeIntervalUpdate env' dr lastInterval)"
  shows "ret (inspectDeploymentReplication cfg env dr lastInterval) =
           ret (inspectDeploymentReplication cfg env' dr lastInterval)"
    "sameOutcome (final (inspectDeploymentReplication cfg env dr lastInterval))
       (final (inspectDeploymentReplication cfg env' dr lastInterval))"
  using assms
  by (simp_all add: inspectDeploymentReplication_def updateNextInterval_def sameOutcome_def
        logMsg_def addFinalizersStep_frame initCtx_def Let_def)

lemma logs_mono_body:
  "set (logs c) \<subseteq> set (logs (addFinalizersStep env c))"
  "set (logs c) \<subseteq> set (logs (runFinalizersStep env c))"
  "set (logs c) \<subseteq> set (logs (inspectDestination env c))"
  by (auto simp: addFinalizersStep_def runFinalizersStep_def inspectDestination_def
        updateConfigured_frame call_def logMsg_def Let_def split: option.split prod.split)

lemma logs_mono_inspectConfiguration:
  "set (logs c) \<subseteq> set (logs (inspectConfiguration env c))"
proof (cases "destClient_err env")
  case (Some err)
  then show ?thesis
    by (auto simp: inspectConfiguration_def call_def logMsg_def)
next
  case None
  let ?c1 = "call (CallCreateSyncMasterClient (Spec_Destination (Spec (ctx_dr c)))) c"
  have "set (logs c) \<subseteq> set (logs (inspectSource env (inspectDestination env ?c1)))"
    using logs_mono_body(3) [of ?c1 env] logs_mono(1) [of "inspectDestination env ?c1" env]
    by (auto simp: call_def)
  then show ?thesis
    using None logs_kept [of _ "inspectSource env (inspectDestination env ?c1)" env]
    by (auto simp: inspectConfiguration_def)
qed

lemma logs_mono_inspectActions:
  "set (logs c) \<subseteq> set (logs (inspectActions env c))"
  using logs_mono_inspectConfiguration [of c env] logs_mono_body(2) [of c env]
  by (simp add: inspectActions_def)

lemma inspectConfiguration_status_write:
  assumes "CallUpdateCRStatus \<notin> set (calls c)"
    and "CallUpdateCRStatus \<in> set (calls (inspectConfiguration env c))"
    and "updateCRStatus_err env = Some err"
  shows "hasError (inspectConfiguration env c)
       \<and> (Warn, ''Failed to update status'') \<in> set (logs (inspectConfiguration env c))"
proof (cases "destClient_err env")
  case (Some e)
  then show ?thesis
    using assms(1,2) by (simp add: inspectConfiguration_def call_def logMsg_def)
next
  case None
  let ?s = "inspectSource env (inspectDestination env
              (call (CallCreateSyncMasterClient (Spec_Destination (Spec (ctx_dr c)))) c))"
  have "CallUpdateCRStatus \<notin> set (calls ?s)"
    using assms(1) by (simp add: updateStatus_called call_def)
  then have needed: "updateStatusNeeded ?s"
    using assms(2) None by (simp add: inspectConfiguration_def updateStatus_called)
  have "hasError (updateStatusStep env ?s)"
    using needed assms(3) by (simp add: updateStatusStep_frame)
  then have err: "hasError (configureSyncStep env (cancelSyncStep env (updateStatusStep env ?s)))"
    by (simp add: configureSyncStep_hasError cancelSyncStep_frame)
  have "(Warn, ''Failed to update status'') \<in> set (logs (updateStatusStep env ?s))"
    using needed assms(3) by (rule updateStatusStep_logged)
  then have "(Warn, ''Failed to update status'')
      \<in> set (logs (configureSyncStep env (cancelSyncStep env (updateStatusStep env ?s))))"
    using logs_mono(3,4) by blast
  then show ?thesis
    using err None by (simp add: inspectConfiguration_def)
qed




lemma inspect_not_failed:
  assumes "Phase dr \<noteq> DeploymentReplicationPhaseFailed"
  shows "final (inspectDeploymentReplication cfg env dr lastInterval) =
           updateNextInterval cfg (beforeIntervalUpdate env dr lastInterval)"
    "ret (inspectDeploymentReplication cfg env dr lastInterval) =
           nextInterval (updateNextInterval cfg (beforeIntervalUpdate env dr lastInterval))"
  using assms by (simp_all add: inspectDeploymentReplication_def Let_def)

section \<open>Evaluation of concrete inspections\<close>

lemmas inspect_defs = inspectDeploymentReplication_def beforeIntervalUpdate_def
  inspectActions_def inspectConfiguration_def configureSyncStep_def cancelSyncStep_def
  updateStatusStep_def inspectSource_def inspectDestination_def updateConfigured_def
  runFinalizersStep_def addFinalizersStep_def initCtx_def updateNextInterval_def call_def
  logMsg_def isIncomingEndpoint_def hasOutgoingEndpoint_def Intersection_def IsEmpty_def
  maskAny_def Let_def

lemmas ex_defs = exCfg_def exSpec_def exDr_def exEnv_def exMisdirected_def exActive_def
  zeroSyncInfo_def Second_def ConditionTypeConfigured_def

section \<open>Properties of the inspection\<close>

text \<open>
  C8. For an object in phase Failed the inspection returns \<^verbatim>\<open>lastInterval\<close> unchanged and
  leaves the receiver (spec, deletion timestamp, phase, conditions, error streak) as it
  was. Its only collaborator call is \<^verbatim>\<open>addFinalizers\<close>, which precedes the check of
  the phase: no syncmaster call, no status write and no finalizer run.
\<close>

theorem failed_phase_is_noop:
  assumes "Phase dr = DeploymentReplicationPhaseFailed"
  shows "ret (inspectDeploymentReplication cfg env dr lastInterval) = lastInterval
       \<and> ctx_dr (final (inspectDeploymentReplication cfg env dr lastInterval)) = dr
       \<and> calls (final (inspectDeploymentReplication cfg env dr lastInterval)) = [CallAddFinalizers]
       \<and> \<not> hasError (final (inspectDeploymentReplication cfg env dr lastInterval))"
  using assms
  by (simp add: inspectDeploymentReplication_def logMsg_def addFinalizersStep_frame initCtx_def)

text \<open>C8 at a concrete input: a failed object with a streak of one and a misdirected
  destination.\<close>

theorem failed_phase_is_noop_witness:
  "Phase (exDr\<lparr>Phase := DeploymentReplicationPhaseFailed, recentInspectionErrors := 1\<rparr>)
     = DeploymentReplicationPhaseFailed
   \<and> ret (inspectDeploymentReplication exCfg (exEnv\<lparr>destStatus := exMisdirected\<rparr>)
        (exDr\<lparr>Phase := DeploymentReplicationPhaseFailed, recentInspectionErrors := 1\<rparr>)
        (90 * Second)) = 90 * Second
   \<and> ctx_dr (final (inspectDeploymentReplication exCfg (exEnv\<lparr>destStatus := exMisdirected\<rparr>)
        (exDr\<lparr>Phase := DeploymentReplicationPhaseFailed, recentInspectionErrors := 1\<rparr>)
        (90 * Second))) =
       exDr\<lparr>Phase := DeploymentReplicationPhaseFailed, recentInspectionErrors := 1\<rparr>
   \<and> calls (final (inspectDeploymentReplication exCfg (exEnv\<lparr>destStatus := exMisdirected\<rparr>)
        (exDr\<lparr>Phase := DeploymentReplicationPhaseFailed, recentInspectionErrors := 1\<rparr>)
        (90 * Second))) = [CallAddFinalizers]"
  using failed_phase_is_noop [where cfg = exCfg and env = "exEnv\<lparr>destStatus := exMisdirected\<rparr>"
      and dr = "exDr\<lparr>Phase := DeploymentReplicationPhaseFailed, recentInspectionErrors := 1\<rparr>"
      and lastInterval = "90 * Second"]
  by simp

text \<open>
  C10. For an object that is not in phase Failed and has no deletion timestamp, when
  creating the destination syncmaster client fails, the calls made are \<^verbatim>\<open>addFinalizers\<close>
  and the client creation only (no status fetch, no remote call, no status write), no
  condition changes, \<^verbatim>\<open>hasError\<close> stays false, the error streak is reset to zero and the
  returned interval is \<^verbatim>\<open>lastInterval\<close> bounded above by \<^verbatim>\<open>maxInspectionInterval\<close>.
\<close>

theorem dest_client_failure_skips_body:
  assumes "Phase dr \<noteq> DeploymentReplicationPhaseFailed"
    and "DeletionTimestamp dr = None"
    and "destClient_err env = Some err"
  shows "calls (final (inspectDeploymentReplication cfg env dr lastInterval)) =
           [CallAddFinalizers, CallCreateSyncMasterClient (Spec_Destination (Spec dr))]
       \<and> ctx_dr (final (inspectDeploymentReplication cfg env dr lastInterval)) =
           dr\<lparr>recentInspectionErrors := 0\<rparr>
       \<and> \<not> hasError (final (inspectDeploymentReplication cfg env dr lastInterval))
       \<and> ret (inspectDeploymentReplication cfg env dr lastInterval) =
           min lastInterval (maxInspectionInterval cfg)"
  using assms
  by (simp add: inspectDeploymentReplication_def beforeIntervalUpdate_def inspectActions_def
        inspectConfiguration_def updateNextInterval_def call_def logMsg_def
        addFinalizersStep_frame initCtx_def Let_def min_def)

text \<open>C10 at a concrete input: a streak of one and a last interval of 90 seconds.\<close>

theorem dest_client_failure_skips_body_witness:
  "Phase (exDr\<lparr>recentInspectionErrors := 1\<rparr>) \<noteq> DeploymentReplicationPhaseFailed
   \<and> DeletionTimestamp (exDr\<lparr>recentInspectionErrors := 1\<rparr>) = None
   \<and> destClient_err (exEnv\<lparr>destClient_err := Some (Error ''no secret'')\<rparr>)
       = Some (Error ''no secret'')
   \<and> calls (final (inspectDeploymentReplication exCfg
        (exEnv\<lparr>destClient_err := Some (Error ''no secret'')\<rparr>)
        (exDr\<lparr>recentInspectionErrors := 1\<rparr>) (90 * Second))) =
       [CallAddFinalizers, CallCreateSyncMasterClient (Spec_Destination exSpec)]
   \<and> \<not> hasError (final (inspectDeploymentReplication exCfg
        (exEnv\<lparr>destClient_err := Some (Error ''no secret'')\<rparr>)
        (exDr\<lparr>recentInspectionErrors := 1\<rparr>) (90 * Second)))
   \<and> recentInspectionErrors (ctx_dr (final (inspectDeploymentReplication exCfg
        (exEnv\<lparr>destClient_err := Some (Error ''no secret'')\<rparr>)
        (exDr\<lparr>recentInspectionErrors := 1\<rparr>) (90 * Second)))) = 0
   \<and> ret (inspectDeploymentReplication exCfg
        (exEnv\<lparr>destClient_err := Some (Error ''no secret'')\<rparr>)
        (exDr\<lparr>recentInspectionErrors := 1\<rparr>) (90 * Second)) = 60 * Second"
  using dest_client_failure_skips_body [where cfg = exCfg
      and env = "exEnv\<lparr>destClient_err := Some (Error ''no secret'')\<rparr>"
      and dr = "exDr\<lparr>recentInspectionErrors := 1\<rparr>" and err = "Error ''no secret''"
      and lastInterval = "90 * Second"]
  by (simp add: exCfg_def exDr_def Second_def)

text \<open>
  C2. For an object with a deletion timestamp, the inspection issues neither
  \<^verbatim>\<open>CancelSynchronization\<close> nor \<^verbatim>\<open>Synchronize\<close>, whatever the remote status: the only
  collaborator calls it makes are \<^verbatim>\<open>addFinalizers\<close> and \<^verbatim>\<open>runFinalizers\<close>.
\<close>

theorem no_sync_mutation_after_deletion:
  assumes "DeletionTimestamp dr \<noteq> None"
  shows "filter isSyncMutation (calls (final (inspectDeploymentReplication cfg env dr lastInterval))) = []
       \<and> set (calls (final (inspectDeploymentReplication cfg env dr lastInterval)))
           \<subseteq> {CallAddFinalizers, CallRunFinalizers}"
  using assms
  by (simp add: inspectDeploymentReplication_def beforeIntervalUpdate_def inspectActions_def
        updateNextInterval_frame runFinalizersStep_frame logMsg_def
        addFinalizersStep_frame initCtx_def Let_def)

text \<open>C2 at a concrete input: a deleted object whose destination replicates from
  another source.\<close>

theorem no_sync_mutation_after_deletion_witness:
  "DeletionTimestamp (exDr\<lparr>DeletionTimestamp := Some 1\<rparr>) \<noteq> None
   \<and> filter isSyncMutation (calls (final (inspectDeploymentReplication exCfg
        (exEnv\<lparr>destStatus := exMisdirected\<rparr>) (exDr\<lparr>DeletionTimestamp := Some 1\<rparr>)
        (30 * Second)))) = []"
  using no_sync_mutation_after_deletion [where dr = "exDr\<lparr>DeletionTimestamp := Some 1\<rparr>"
      and cfg = exCfg and env = "exEnv\<lparr>destStatus := exMisdirected\<rparr>"
      and lastInterval = "30 * Second"]
  by (simp add: ex_defs)

text \<open>
  C3. In every execution the flags \<^verbatim>\<open>configureSyncNeeded\<close> and \<^verbatim>\<open>cancelSyncNeeded\<close> are
  not both true, and at most one of \<^verbatim>\<open>CancelSynchronization\<close> and \<^verbatim>\<open>Synchronize\<close> is
  issued. The flags start false and are assigned only while the destination status is
  inspected, so their final values are their values at every later point of the
  execution.
\<close>

theorem configure_cancel_exclusive:
  "\<not> (configureSyncNeeded (final (inspectDeploymentReplication cfg env dr lastInterval))
      \<and> cancelSyncNeeded (final (inspectDeploymentReplication cfg env dr lastInterval)))
   \<and> length (filter isSyncMutation
        (calls (final (inspectDeploymentReplication cfg env dr lastInterval)))) \<le> 1"
proof -
  let ?c = "addFinalizersStep env (initCtx dr lastInterval)"
  have start: "\<not> configureSyncNeeded ?c" "\<not> cancelSyncNeeded ?c"
    "filter isSyncMutation (calls ?c) = []"
    by (simp_all add: addFinalizersStep_frame initCtx_def)
  have flags: "\<not> (configureSyncNeeded (inspectActions env ?c) \<and> cancelSyncNeeded (inspectActions env ?c))"
    using inspectConfiguration_flags [OF start(1,2), of env] start
    by (simp add: inspectActions_def runFinalizersStep_frame)
  have muts: "length (filter isSyncMutation (calls (inspectActions env ?c))) \<le> 1"
    using inspectConfiguration_mutations [OF start(1,2), of env] start
    by (simp add: inspectActions_def runFinalizersStep_frame)
  show ?thesis
    using flags muts start
    by (simp add: inspectDeploymentReplication_def beforeIntervalUpdate_def
          updateNextInterval_frame logMsg_def Let_def)
qed

text \<open>C3 at a concrete input: a destination that replicates from another source.\<close>

theorem configure_cancel_exclusive_witness:
  "\<not> (configureSyncNeeded (final (inspectDeploymentReplication exCfg
         (exEnv\<lparr>destStatus := exMisdirected\<rparr>) exDr (30 * Second)))
      \<and> cancelSyncNeeded (final (inspectDeploymentReplication exCfg
         (exEnv\<lparr>destStatus := exMisdirected\<rparr>) exDr (30 * Second))))
   \<and> length (filter isSyncMutation (calls (final (inspectDeploymentReplication exCfg
         (exEnv\<lparr>destStatus := exMisdirected\<rparr>) exDr (30 * Second))))) \<le> 1"
  using configure_cancel_exclusive [of exCfg "exEnv\<lparr>destStatus := exMisdirected\<rparr>" exDr
      "30 * Second"]
  by simp

text \<open>
  C9. The source-side cross-check leaves the receiver with its conditions, \<^verbatim>\<open>hasError\<close>,
  \<^verbatim>\<open>nextInterval\<close> and the three flags as they were and issues no cancel or configure
  call. Whatever the source client creation, the source status fetch and the endpoint
  derivation of the check return, the inspection returns the same interval and ends with
  the same receiver, error flag, flags and syncmaster mutations.
\<close>

theorem source_check_is_diagnostic:
  "ctx_dr (inspectSource env c) = ctx_dr c
   \<and> hasError (inspectSource env c) = hasError c
   \<and> nextInterval (inspectSource env c) = nextInterval c
   \<and> updateStatusNeeded (inspectSource env c) = updateStatusNeeded c
   \<and> configureSyncNeeded (inspectSource env c) = configureSyncNeeded c
   \<and> cancelSyncNeeded (inspectSource env c) = cancelSyncNeeded c
   \<and> filter isSyncMutation (calls (inspectSource env c)) = filter isSyncMutation (calls c)
   \<and> ret (inspectDeploymentReplication cfg
        (env\<lparr>sourceClient_err := a, sourceStatus := b, sourceStatus_err := e, outgoingEndpoint := d\<rparr>)
        dr lastInterval) = ret (inspectDeploymentReplication cfg env dr lastInterval)
   \<and> sameOutcome
        (final (inspectDeploymentReplication cfg
          (env\<lparr>sourceClient_err := a, sourceStatus := b, sourceStatus_err := e, outgoingEndpoint := d\<rparr>)
          dr lastInterval))
        (final (inspectDeploymentReplication cfg env dr lastInterval))"
proof -
  let ?env' = "env\<lparr>sourceClient_err := a, sourceStatus := b, sourceStatus_err := e, outgoingEndpoint := d\<rparr>"
  have same: "sameOutcome (beforeIntervalUpdate ?env' dr lastInterval)
                (beforeIntervalUpdate env dr lastInterval)"
    by (rule sameOutcome_beforeIntervalUpdate) simp_all
  show ?thesis
    using sameOutcome_result [OF same, of cfg]
    by (simp add: inspectSource_frame)
qed

text \<open>C9 at a concrete input: a source status fetch that fails.\<close>

theorem source_check_is_diagnostic_witness:
  "ret (inspectDeploymentReplication exCfg
        (exEnv\<lparr>sourceClient_err := None, sourceStatus := zeroSyncInfo,
               sourceStatus_err := Some (Error ''timeout''),
               outgoingEndpoint := Inl (Error ''no endpoint'')\<rparr>)
        exDr (30 * Second)) = ret (inspectDeploymentReplication exCfg exEnv exDr (30 * Second))
   \<and> sameOutcome
        (final (inspectDeploymentReplication exCfg
          (exEnv\<lparr>sourceClient_err := None, sourceStatus := zeroSyncInfo,
                 sourceStatus_err := Some (Error ''timeout''),
                 outgoingEndpoint := Inl (Error ''no endpoint'')\<rparr>)
          exDr (30 * Second)))
        (final (inspectDeploymentReplication exCfg exEnv exDr (30 * Second)))"
  using source_check_is_diagnostic [where env = exEnv and cfg = exCfg and dr = exDr
      and lastInterval = "30 * Second" and a = None and b = zeroSyncInfo
      and e = "Some (Error ''timeout'')" and d = "Inl (Error ''no endpoint'')"]
  by simp

text \<open>
  C1, as the code has it. For an object that is not in phase Failed and has no deletion
  timestamp, when the destination client was created and fetching the destination's status
  returns an error, the failure is logged as a warning and \<^verbatim>\<open>hasError\<close> stays false:
  the error streak is reset to zero, the returned interval is \<^verbatim>\<open>lastInterval\<close> bounded
  above by \<^verbatim>\<open>maxInspectionInterval\<close>, no condition changes and no cancel or configure
  call is made.
\<close>

theorem dest_status_failure_not_counted:
  assumes "Phase dr \<noteq> DeploymentReplicationPhaseFailed"
    and "DeletionTimestamp dr = None"
    and "destClient_err env = None"
    and "destStatus_err env = Some err"
  shows "\<not> hasError (final (inspectDeploymentReplication cfg env dr lastInterval))
       \<and> recentInspectionErrors (ctx_dr (final (inspectDeploymentReplication cfg env dr lastInterval))) = 0
       \<and> ret (inspectDeploymentReplication cfg env dr lastInterval) =
           min lastInterval (maxInspectionInterval cfg)
       \<and> (Warn, ''Failed to fetch status from destination syncmaster'')
           \<in> set (logs (final (inspectDeploymentReplication cfg env dr lastInterval)))
       \<and> Conditions (ctx_dr (final (inspectDeploymentReplication cfg env dr lastInterval))) = Conditions dr
       \<and> filter isSyncMutation (calls (final (inspectDeploymentReplication cfg env dr lastInterval))) = []"
proof -
  let ?c0 = "addFinalizersStep env (initCtx dr lastInterval)"
  let ?c1 = "call (CallCreateSyncMasterClient (Spec_Destination (Spec (ctx_dr ?c0)))) ?c0"
  let ?d = "inspectDestination env ?c1"
  let ?s = "inspectSource env ?d"
  have d: "?d = logMsg Warn ''Failed to fetch status from destination syncmaster''
                  (call (CallMasterStatus DestinationMaster) ?c1)"
    using assms(4) by (simp add: inspectDestination_def)
  have flags: "\<not> updateStatusNeeded ?s" "\<not> cancelSyncNeeded ?s" "\<not> configureSyncNeeded ?s"
    unfolding inspectSource_frame d
    by (simp_all add: logMsg_def call_def addFinalizersStep_frame initCtx_def)
  have body: "beforeIntervalUpdate env dr lastInterval = ?s"
    using assms(2,3) flags
    by (simp add: beforeIntervalUpdate_def inspectActions_def inspectConfiguration_def
          steps_skipped addFinalizersStep_frame initCtx_def)
  have s: "ctx_dr ?s = dr" "\<not> hasError ?s" "nextInterval ?s = lastInterval"
    "filter isSyncMutation (calls ?s) = []"
    unfolding inspectSource_frame d
    by (simp_all add: logMsg_def call_def addFinalizersStep_frame initCtx_def)
  have "(Warn, ''Failed to fetch status from destination syncmaster'') \<in> set (logs ?d)"
    by (simp add: d logMsg_def)
  then have logged: "(Warn, ''Failed to fetch status from destination syncmaster'') \<in> set (logs ?s)"
    using logs_mono(1) by blast
  show ?thesis
    using assms(1) s logged
    by (simp add: inspectDeploymentReplication_def body updateNextInterval_frame
          updateNextInterval_streak updateNextInterval_nextInterval)
qed

text \<open>C1 at a concrete input: a timeout of the destination status call, a last interval
  of 90 seconds.\<close>

theorem dest_status_failure_not_counted_witness:
  "Phase exDr \<noteq> DeploymentReplicationPhaseFailed \<and> DeletionTimestamp exDr = None
   \<and> destClient_err (exEnv\<lparr>destStatus_err := Some (Error ''timeout'')\<rparr>) = None
   \<and> destStatus_err (exEnv\<lparr>destStatus_err := Some (Error ''timeout'')\<rparr>) = Some (Error ''timeout'')
   \<and> \<not> hasError (final (inspectDeploymentReplication exCfg
          (exEnv\<lparr>destStatus_err := Some (Error ''timeout'')\<rparr>) exDr (90 * Second)))
   \<and> recentInspectionErrors (ctx_dr (final (inspectDeploymentReplication exCfg
          (exEnv\<lparr>destStatus_err := Some (Error ''timeout'')\<rparr>) exDr (90 * Second)))) = 0
   \<and> ret (inspectDeploymentReplication exCfg
          (exEnv\<lparr>destStatus_err := Some (Error ''timeout'')\<rparr>) exDr (90 * Second)) = 60 * Second"
  using dest_status_failure_not_counted [where dr = exDr and cfg = exCfg
      and env = "exEnv\<lparr>destStatus_err := Some (Error ''timeout'')\<rparr>"
      and err = "Error ''timeout''" and lastInterval = "90 * Second"]
  by (simp add: ex_defs)

text \<open>C1 as stated fails: with an error streak of zero and a failing destination status
  fetch, \<^verbatim>\<open>hasError\<close> is not set, the returned interval is the last interval of 30
  seconds and not \<^verbatim>\<open>minInspectionInterval\<close>, and the streak does not become 1.\<close>

theorem dest_status_failure_counterexample:
  "Phase exDr \<noteq> DeploymentReplicationPhaseFailed \<and> DeletionTimestamp exDr = None
   \<and> recentInspectionErrors exDr = 0
   \<and> destClient_err (exEnv\<lparr>destStatus_err := Some (Error ''timeout'')\<rparr>) = None
   \<and> destStatus_err (exEnv\<lparr>destStatus_err := Some (Error ''timeout'')\<rparr>) \<noteq> None
   \<and> \<not> hasError (final (inspectDeploymentReplication exCfg
          (exEnv\<lparr>destStatus_err := Some (Error ''timeout'')\<rparr>) exDr (30 * Second)))
   \<and> ret (inspectDeploymentReplication exCfg
          (exEnv\<lparr>destStatus_err := Some (Error ''timeout'')\<rparr>) exDr (30 * Second))
        \<noteq> minInspectionInterval exCfg
   \<and> recentInspectionErrors (ctx_dr (final (inspectDeploymentReplication exCfg
          (exEnv\<lparr>destStatus_err := Some (Error ''timeout'')\<rparr>) exDr (30 * Second)))) \<noteq> 1"
  by (simp add: inspect_defs ex_defs)

text \<open>
  C4, as the code has it. For an object that is not in phase Failed, with
  \<^verbatim>\<open>minInspectionInterval\<close> at most \<^verbatim>\<open>maxInspectionInterval\<close>: when \<^verbatim>\<open>hasError\<close> is set
  and the streak was zero, the inspection returns \<^verbatim>\<open>minInspectionInterval\<close> and the
  streak becomes 1; when \<^verbatim>\<open>hasError\<close> is set and the streak was not zero, the returned
  interval is the one computed by the steps before, bounded above by
  \<^verbatim>\<open>maxInspectionInterval\<close>, and the streak keeps its value; with no error the streak
  is reset to zero.
\<close>

theorem error_streak_policy:
  assumes "Phase dr \<noteq> DeploymentReplicationPhaseFailed"
    and "minInspectionInterval cfg \<le> maxInspectionInterval cfg"
  shows "(hasError (final (inspectDeploymentReplication cfg env dr lastInterval))
            \<and> recentInspectionErrors dr = 0 \<longrightarrow>
          ret (inspectDeploymentReplication cfg env dr lastInterval) = minInspectionInterval cfg
          \<and> recentInspectionErrors (ctx_dr (final (inspectDeploymentReplication cfg env dr lastInterval))) = 1)
       \<and> (hasError (final (inspectDeploymentReplication cfg env dr lastInterval))
            \<and> recentInspectionErrors dr \<noteq> 0 \<longrightarrow>
          ret (inspectDeploymentReplication cfg env dr lastInterval) =
            min (nextInterval (beforeIntervalUpdate env dr lastInterval)) (maxInspectionInterval cfg)
          \<and> recentInspectionErrors (ctx_dr (final (inspectDeploymentReplication cfg env dr lastInterval)))
              = recentInspectionErrors dr)
       \<and> (\<not> hasError (final (inspectDeploymentReplication cfg env dr lastInterval)) \<longrightarrow>
          ret (inspectDeploymentReplication cfg env dr lastInterval) =
            min (nextInterval (beforeIntervalUpdate env dr lastInterval)) (maxInspectionInterval cfg)
          \<and> recentInspectionErrors (ctx_dr (final (inspectDeploymentReplication cfg env dr lastInterval))) = 0)"
  using assms
  by (simp add: inspectDeploymentReplication_def updateNextInterval_frame
        updateNextInterval_streak updateNextInterval_nextInterval beforeIntervalUpdate_frame)

text \<open>C4 at three concrete inputs: a failing configure call with a streak of zero, the
  same with a streak of one, and an inspection without error.\<close>

theorem error_streak_policy_witness:
  "Phase exDr \<noteq> DeploymentReplicationPhaseFailed
   \<and> minInspectionInterval exCfg \<le> maxInspectionInterval exCfg
   \<and> hasError (final (inspectDeploymentReplication exCfg
        (exEnv\<lparr>synchronize_err := Some (Error ''refused'')\<rparr>) exDr (30 * Second)))
   \<and> recentInspectionErrors exDr = 0
   \<and> ret (inspectDeploymentReplication exCfg
        (exEnv\<lparr>synchronize_err := Some (Error ''refused'')\<rparr>) exDr (30 * Second)) = Second
   \<and> recentInspectionErrors (ctx_dr (final (inspectDeploymentReplication exCfg
        (exEnv\<lparr>synchronize_err := Some (Error ''refused'')\<rparr>) exDr (30 * Second)))) = 1
   \<and> hasError (final (inspectDeploymentReplication exCfg
        (exEnv\<lparr>synchronize_err := Some (Error ''refused'')\<rparr>)
        (exDr\<lparr>recentInspectionErrors := 1\<rparr>) (30 * Second)))
   \<and> ret (inspectDeploymentReplication exCfg
        (exEnv\<lparr>synchronize_err := Some (Error ''refused'')\<rparr>)
        (exDr\<lparr>recentInspectionErrors := 1\<rparr>) (30 * Second)) = 30 * Second
   \<and> recentInspectionErrors (ctx_dr (final (inspectDeploymentReplication exCfg
        (exEnv\<lparr>synchronize_err := Some (Error ''refused'')\<rparr>)
        (exDr\<lparr>recentInspectionErrors := 1\<rparr>) (30 * Second)))) = 1
   \<and> \<not> hasError (final (inspectDeploymentReplication exCfg exEnv
        (exDr\<lparr>recentInspectionErrors := 1\<rparr>) (30 * Second)))
   \<and> ret (inspectDeploymentReplication exCfg exEnv
        (exDr\<lparr>recentInspectionErrors := 1\<rparr>) (30 * Second)) = 10 * Second
   \<and> recentInspectionErrors (ctx_dr (final (inspectDeploymentReplication exCfg exEnv
        (exDr\<lparr>recentInspectionErrors := 1\<rparr>) (30 * Second)))) = 0"
proof -
  have min_max: "minInspectionInterval exCfg \<le> maxInspectionInterval exCfg"
    by (simp add: ex_defs)
  have ph: "Phase exDr \<noteq> DeploymentReplicationPhaseFailed"
    "Phase (exDr\<lparr>recentInspectionErrors := 1\<rparr>) \<noteq> DeploymentReplicationPhaseFailed"
    by (simp_all add: ex_defs)
  have err: "hasError (final (inspectDeploymentReplication exCfg
        (exEnv\<lparr>synchronize_err := Some (Error ''refused'')\<rparr>) exDr (30 * Second)))"
    "hasError (final (inspectDeploymentReplication exCfg
        (exEnv\<lparr>synchronize_err := Some (Error ''refused'')\<rparr>)
        (exDr\<lparr>recentInspectionErrors := 1\<rparr>) (30 * Second)))"
    "\<not> hasError (final (inspectDeploymentReplication exCfg exEnv
        (exDr\<lparr>recentInspectionErrors := 1\<rparr>) (30 * Second)))"
    by (simp_all add: inspect_defs ex_defs)
  have computed: "nextInterval (beforeIntervalUpdate
        (exEnv\<lparr>synchronize_err := Some (Error ''refused'')\<rparr>)
        (exDr\<lparr>recentInspectionErrors := 1\<rparr>) (30 * Second)) = 30 * Second"
    "nextInterval (beforeIntervalUpdate exEnv
        (exDr\<lparr>recentInspectionErrors := 1\<rparr>) (30 * Second)) = 10 * Second"
    by (simp_all add: inspect_defs ex_defs)
  show ?thesis
    using error_streak_policy [OF ph(1) min_max,
        of "exEnv\<lparr>synchronize_err := Some (Error ''refused'')\<rparr>" "30 * Second"]
      error_streak_policy [OF ph(2) min_max,
        of "exEnv\<lparr>synchronize_err := Some (Error ''refused'')\<rparr>" "30 * Second"]
      error_streak_policy [OF ph(2) min_max, of exEnv "30 * Second"]
      err computed min_max ph(1)
    by (simp add: exCfg_def exDr_def Second_def)
qed

text \<open>C4 as stated fails. An object in phase Failed with a streak of one is inspected
  without error and keeps its streak of one. And with a streak of one and failing
  finalizers, the steps before compute 90 seconds and the inspection returns 60
  seconds.\<close>

theorem error_streak_policy_counterexample:
  "\<not> hasError (final (inspectDeploymentReplication exCfg exEnv
        (exDr\<lparr>Phase := DeploymentReplicationPhaseFailed, recentInspectionErrors := 1\<rparr>)
        (30 * Second)))
   \<and> recentInspectionErrors (ctx_dr (final (inspectDeploymentReplication exCfg exEnv
        (exDr\<lparr>Phase := DeploymentReplicationPhaseFailed, recentInspectionErrors := 1\<rparr>)
        (30 * Second)))) = 1
   \<and> hasError (final (inspectDeploymentReplication exCfg
        (exEnv\<lparr>runFinalizers_err := Some (Error ''cleanup failed'')\<rparr>)
        (exDr\<lparr>DeletionTimestamp := Some 1, recentInspectionErrors := 1\<rparr>) (90 * Second)))
   \<and> nextInterval (beforeIntervalUpdate
        (exEnv\<lparr>runFinalizers_err := Some (Error ''cleanup failed'')\<rparr>)
        (exDr\<lparr>DeletionTimestamp := Some 1, recentInspectionErrors := 1\<rparr>) (90 * Second))
       = 90 * Second
   \<and> ret (inspectDeploymentReplication exCfg
        (exEnv\<lparr>runFinalizers_err := Some (Error ''cleanup failed'')\<rparr>)
        (exDr\<lparr>DeletionTimestamp := Some 1, recentInspectionErrors := 1\<rparr>) (90 * Second))
       = 60 * Second"
  by (simp add: inspect_defs ex_defs)

text \<open>
  C5, as the code has it. For an object that is not in phase Failed the returned interval
  is at most \<^verbatim>\<open>maxInspectionInterval\<close>, and it is at least \<^verbatim>\<open>minInspectionInterval\<close> if
  \<^verbatim>\<open>minInspectionInterval\<close> is at most \<^verbatim>\<open>maxInspectionInterval\<close>, at most
  \<^verbatim>\<open>lastInterval\<close> and at most ten seconds.
\<close>

theorem returned_interval_bounded_above:
  assumes "Phase dr \<noteq> DeploymentReplicationPhaseFailed"
  shows "ret (inspectDeploymentReplication cfg env dr lastInterval) \<le> maxInspectionInterval cfg
       \<and> (minInspectionInterval cfg \<le> maxInspectionInterval cfg
            \<and> minInspectionInterval cfg \<le> lastInterval
            \<and> minInspectionInterval cfg \<le> Second * 10 \<longrightarrow>
          minInspectionInterval cfg \<le> ret (inspectDeploymentReplication cfg env dr lastInterval))"
  using assms beforeIntervalUpdate_nextInterval [of env dr lastInterval]
  by (auto simp: inspectDeploymentReplication_def updateNextInterval_nextInterval)

text \<open>C5 at a concrete input: a last interval of 90 seconds is cut to one minute.\<close>

theorem returned_interval_bounded_above_witness:
  "Phase exDr \<noteq> DeploymentReplicationPhaseFailed
   \<and> minInspectionInterval exCfg \<le> maxInspectionInterval exCfg
   \<and> minInspectionInterval exCfg \<le> 90 * Second
   \<and> minInspectionInterval exCfg \<le> Second * 10
   \<and> ret (inspectDeploymentReplication exCfg (exEnv\<lparr>destStatus := exActive\<rparr>) exDr (90 * Second))
       \<le> maxInspectionInterval exCfg
   \<and> minInspectionInterval exCfg
       \<le> ret (inspectDeploymentReplication exCfg (exEnv\<lparr>destStatus := exActive\<rparr>) exDr (90 * Second))"
  using returned_interval_bounded_above [where dr = exDr and cfg = exCfg
      and env = "exEnv\<lparr>destStatus := exActive\<rparr>" and lastInterval = "90 * Second"]
  by (simp add: exCfg_def exDr_def Second_def)

text \<open>C5 as stated fails on both sides: a last interval of half a second is returned
  as it is, below \<^verbatim>\<open>minInspectionInterval\<close>, and for an object in phase Failed a last
  interval of 90 seconds is returned as it is, above \<^verbatim>\<open>maxInspectionInterval\<close>.\<close>

theorem returned_interval_counterexample:
  "Phase exDr \<noteq> DeploymentReplicationPhaseFailed
   \<and> ret (inspectDeploymentReplication exCfg (exEnv\<lparr>destStatus := exActive\<rparr>) exDr 500000000)
       < minInspectionInterval exCfg
   \<and> maxInspectionInterval exCfg
       < ret (inspectDeploymentReplication exCfg exEnv
               (exDr\<lparr>Phase := DeploymentReplicationPhaseFailed\<rparr>) (90 * Second))"
  by (simp add: inspect_defs ex_defs)




text \<open>
  C7, as the code has it. A status write (\<^verbatim>\<open>updateCRStatus\<close>) that is made and fails is
  logged and sets \<^verbatim>\<open>hasError\<close>. A failure to add the finalizers is logged only: the
  error flag, the receiver (its error streak with it) and the returned interval are those
  of the same inspection with the finalizers added.
\<close>

theorem persistence_failures:
  "(CallUpdateCRStatus \<in> set (calls (final (inspectDeploymentReplication cfg env dr lastInterval)))
      \<and> updateCRStatus_err env = Some err \<longrightarrow>
    hasError (final (inspectDeploymentReplication cfg env dr lastInterval))
    \<and> (Warn, ''Failed to update status'')
        \<in> set (logs (final (inspectDeploymentReplication cfg env dr lastInterval))))
   \<and> (addFinalizers_err env = Some err' \<longrightarrow>
    (Warn, ''Failed to add finalizers'')
        \<in> set (logs (final (inspectDeploymentReplication cfg env dr lastInterval)))
    \<and> hasError (final (inspectDeploymentReplication cfg env dr lastInterval)) =
        hasError (final (inspectDeploymentReplication cfg (env\<lparr>addFinalizers_err := None\<rparr>) dr lastInterval))
    \<and> ctx_dr (final (inspectDeploymentReplication cfg env dr lastInterval)) =
        ctx_dr (final (inspectDeploymentReplication cfg (env\<lparr>addFinalizers_err := None\<rparr>) dr lastInterval))
    \<and> ret (inspectDeploymentReplication cfg env dr lastInterval) =
        ret (inspectDeploymentReplication cfg (env\<lparr>addFinalizers_err := None\<rparr>) dr lastInterval))"
proof (intro conjI impI)
  let ?c0 = "addFinalizersStep env (initCtx dr lastInterval)"
  let ?b = "beforeIntervalUpdate env dr lastInterval"
  let ?r = "inspectDeploymentReplication cfg env dr lastInterval"
  let ?q = "inspectDeploymentReplication cfg (env\<lparr>addFinalizers_err := None\<rparr>) dr lastInterval"
  {
    assume a: "CallUpdateCRStatus \<in> set (calls (final ?r)) \<and> updateCRStatus_err env = Some err"
    have notFailed: "Phase dr \<noteq> DeploymentReplicationPhaseFailed"
      using a
      by (auto simp: inspectDeploymentReplication_def logMsg_def addFinalizersStep_frame
            initCtx_def Let_def)
    then have fin: "final ?r = updateNextInterval cfg ?b"
      by (rule inspect_not_failed)
    have inb: "CallUpdateCRStatus \<in> set (calls ?b)"
      using a by (simp add: fin updateNextInterval_frame)
    have noDel: "DeletionTimestamp dr = None"
      using inb
      by (auto simp: beforeIntervalUpdate_def inspectActions_def runFinalizersStep_frame
            addFinalizersStep_frame initCtx_def split: if_splits)
    then have body: "?b = inspectConfiguration env ?c0"
      by (simp add: beforeIntervalUpdate_def inspectActions_def addFinalizersStep_frame initCtx_def)
    have fresh: "CallUpdateCRStatus \<notin> set (calls ?c0)"
      by (simp add: addFinalizersStep_frame initCtx_def)
    have both: "hasError ?b \<and> (Warn, ''Failed to update status'') \<in> set (logs ?b)"
      using inspectConfiguration_status_write [OF fresh] inb a by (simp add: body)
    show "hasError (final ?r)"
      using both by (simp add: fin updateNextInterval_frame)
    show "(Warn, ''Failed to update status'') \<in> set (logs (final ?r))"
      using both by (simp add: fin updateNextInterval_frame)
  }
  {
    assume f: "addFinalizers_err env = Some err'"
    have l0: "(Warn, ''Failed to add finalizers'') \<in> set (logs ?c0)"
      using f by (simp add: addFinalizersStep_def call_def logMsg_def)
    then have "(Warn, ''Failed to add finalizers'') \<in> set (logs ?b)"
      using logs_mono_inspectActions [of ?c0 env] by (auto simp: beforeIntervalUpdate_def)
    with l0 show "(Warn, ''Failed to add finalizers'') \<in> set (logs (final ?r))"
      by (simp add: inspectDeploymentReplication_def updateNextInterval_frame logMsg_def Let_def)
    have same: "sameOutcome ?b (beforeIntervalUpdate (env\<lparr>addFinalizers_err := None\<rparr>) dr lastInterval)"
      by (rule sameOutcome_beforeIntervalUpdate) simp_all
    show "hasError (final ?r) = hasError (final ?q)"
      using sameOutcome_result(2) [OF same, of cfg] by (simp add: sameOutcome_def)
    show "ctx_dr (final ?r) = ctx_dr (final ?q)"
      using sameOutcome_result(2) [OF same, of cfg] by (simp add: sameOutcome_def)
    show "ret ?r = ret ?q"
      using sameOutcome_result(1) [OF same, of cfg] .
  }
qed

text \<open>C7 at a concrete input: both writes fail.\<close>

theorem persistence_failures_witness:
  "CallUpdateCRStatus \<in> set (calls (final (inspectDeploymentReplication exCfg
        (exEnv\<lparr>addFinalizers_err := Some (Error ''conflict''),
               updateCRStatus_err := Some (Error ''stale'')\<rparr>) exDr (30 * Second))))
   \<and> updateCRStatus_err (exEnv\<lparr>addFinalizers_err := Some (Error ''conflict''),
               updateCRStatus_err := Some (Error ''stale'')\<rparr>) = Some (Error ''stale'')
   \<and> addFinalizers_err (exEnv\<lparr>addFinalizers_err := Some (Error ''conflict''),
               updateCRStatus_err := Some (Error ''stale'')\<rparr>) = Some (Error ''conflict'')
   \<and> hasError (final (inspectDeploymentReplication exCfg
        (exEnv\<lparr>addFinalizers_err := Some (Error ''conflict''),
               updateCRStatus_err := Some (Error ''stale'')\<rparr>) exDr (30 * Second)))
   \<and> (Warn, ''Failed to update status'') \<in> set (logs (final (inspectDeploymentReplication exCfg
        (exEnv\<lparr>addFinalizers_err := Some (Error ''conflict''),
               updateCRStatus_err := Some (Error ''stale'')\<rparr>) exDr (30 * Second))))
   \<and> (Warn, ''Failed to add finalizers'') \<in> set (logs (final (inspectDeploymentReplication exCfg
        (exEnv\<lparr>addFinalizers_err := Some (Error ''conflict''),
               updateCRStatus_err := Some (Error ''stale'')\<rparr>) exDr (30 * Second))))"
proof -
  let ?env = "exEnv\<lparr>addFinalizers_err := Some (Error ''conflict''),
               updateCRStatus_err := Some (Error ''stale'')\<rparr>"
  have called: "CallUpdateCRStatus
      \<in> set (calls (final (inspectDeploymentReplication exCfg ?env exDr (30 * Second))))"
    by (simp add: inspect_defs ex_defs)
  have errs: "updateCRStatus_err ?env = Some (Error ''stale'')"
    "addFinalizers_err ?env = Some (Error ''conflict'')"
    by simp_all
  show ?thesis
    using persistence_failures [of exCfg ?env exDr "30 * Second" "Error ''stale''" "Error ''conflict''"]
      called errs
    by simp
qed

text \<open>C7 as stated fails: a failure to add the finalizers, with nothing else failing
  and a streak of zero, is logged but \<^verbatim>\<open>hasError\<close> stays false, the streak stays zero
  and the last interval of 30 seconds is returned.\<close>

theorem persistence_failures_counterexample:
  "addFinalizers_err (exEnv\<lparr>addFinalizers_err := Some (Error ''conflict''), destStatus := exActive\<rparr>)
     \<noteq> None
   \<and> recentInspectionErrors exDr = 0
   \<and> (Warn, ''Failed to add finalizers'') \<in> set (logs (final (inspectDeploymentReplication exCfg
        (exEnv\<lparr>addFinalizers_err := Some (Error ''conflict''), destStatus := exActive\<rparr>) exDr
        (30 * Second))))
   \<and> \<not> hasError (final (inspectDeploymentReplication exCfg
        (exEnv\<lparr>addFinalizers_err := Some (Error ''conflict''), destStatus := exActive\<rparr>) exDr
        (30 * Second)))
   \<and> recentInspectionErrors (ctx_dr (final (inspectDeploymentReplication exCfg
        (exEnv\<lparr>addFinalizers_err := Some (Error ''conflict''), destStatus := exActive\<rparr>) exDr
        (30 * Second)))) = 0
   \<and> ret (inspectDeploymentReplication exCfg
        (exEnv\<lparr>addFinalizers_err := Some (Error ''conflict''), destStatus := exActive\<rparr>) exDr
        (30 * Second)) = 30 * Second"
  by (simp add: inspect_defs ex_defs)

end
